theory Spec2Isabelle
  imports Complex_Main
begin

section \<open>Floating-point values\<close>

text \<open>
  The screener computes with Python and numpy floats. A float is modelled as a real number
  or one of the three special values of IEEE 754; rounding is not modelled and the two
  signed zeros are identified. The special values are what a zero denominator produces in
  the indicator engine, so they are kept.
\<close>

datatype pyfloat = Fin real | PInf | NInf | NaN


text \<open>\<open>pd.isna\<close> on a float.\<close>

fun isna :: "pyfloat \<Rightarrow> bool" where
  "isna NaN = True"
| "isna (Fin x) = False"
| "isna PInf = False"
| "isna NInf = False"

definition inf_of_sign :: "real \<Rightarrow> pyfloat" where
  "inf_of_sign s = (if 0 < s then PInf else if s < 0 then NInf else NaN)"

fun fneg :: "pyfloat \<Rightarrow> pyfloat" where
  "fneg (Fin x) = Fin (- x)"
| "fneg PInf = NInf"
| "fneg NInf = PInf"
| "fneg NaN = NaN"

fun fabs :: "pyfloat \<Rightarrow> pyfloat" where
  "fabs (Fin x) = Fin \<bar>x\<bar>"
| "fabs PInf = PInf"
| "fabs NInf = PInf"
| "fabs NaN = NaN"

fun fadd :: "pyfloat \<Rightarrow> pyfloat \<Rightarrow> pyfloat" where
  "fadd (Fin x) (Fin y) = Fin (x + y)"
| "fadd NaN b = NaN"
| "fadd a NaN = NaN"
| "fadd PInf NInf = NaN"
| "fadd NInf PInf = NaN"
| "fadd PInf b = PInf"
| "fadd a PInf = PInf"
| "fadd NInf b = NInf"
| "fadd a NInf = NInf"

definition fsub :: "pyfloat \<Rightarrow> pyfloat \<Rightarrow> pyfloat" where
  "fsub a b = fadd a (fneg b)"

fun fmul :: "pyfloat \<Rightarrow> pyfloat \<Rightarrow> pyfloat" where
  "fmul (Fin x) (Fin y) = Fin (x * y)"
| "fmul NaN b = NaN"
| "fmul a NaN = NaN"
| "fmul PInf (Fin y) = inf_of_sign y"
| "fmul NInf (Fin y) = inf_of_sign (- y)"
| "fmul (Fin x) PInf = inf_of_sign x"
| "fmul (Fin x) NInf = inf_of_sign (- x)"
| "fmul PInf PInf = PInf"
| "fmul NInf NInf = PInf"
| "fmul PInf NInf = NInf"
| "fmul NInf PInf = NInf"

text \<open>
  Division as numpy does it on arrays: a zero denominator raises nothing and gives an
  infinity or NaN.
\<close>

fun fdiv :: "pyfloat \<Rightarrow> pyfloat \<Rightarrow> pyfloat" where
  "fdiv (Fin x) (Fin y) = (if y \<noteq> 0 then Fin (x / y) else inf_of_sign x)"
| "fdiv NaN b = NaN"
| "fdiv a NaN = NaN"
| "fdiv (Fin x) PInf = Fin 0"
| "fdiv (Fin x) NInf = Fin 0"
| "fdiv PInf (Fin y) = (if 0 \<le> y then PInf else NInf)"
| "fdiv NInf (Fin y) = (if 0 \<le> y then NInf else PInf)"
| "fdiv PInf PInf = NaN"
| "fdiv PInf NInf = NaN"
| "fdiv NInf PInf = NaN"
| "fdiv NInf NInf = NaN"

text \<open>The comparisons \<open><\<close> and \<open><=\<close>: every comparison with NaN is false.\<close>

fun flt :: "pyfloat \<Rightarrow> pyfloat \<Rightarrow> bool" where
  "flt (Fin x) (Fin y) = (x < y)"
| "flt NaN b = False"
| "flt a NaN = False"
| "flt a NInf = False"
| "flt PInf b = False"
| "flt NInf b = True"
| "flt a PInf = True"

fun fle :: "pyfloat \<Rightarrow> pyfloat \<Rightarrow> bool" where
  "fle (Fin x) (Fin y) = (x \<le> y)"
| "fle NaN b = False"
| "fle a NaN = False"
| "fle NInf b = True"
| "fle a PInf = True"
| "fle a NInf = False"
| "fle PInf b = False"

text \<open>
  Python's built-in \<open>min(a, b)\<close> and \<open>max(a, b)\<close>: the first argument is kept unless the
  second is strictly smaller (respectively greater).
\<close>

definition py_min :: "pyfloat \<Rightarrow> pyfloat \<Rightarrow> pyfloat" where
  "py_min a b = (if flt b a then b else a)"

definition py_max :: "pyfloat \<Rightarrow> pyfloat \<Rightarrow> pyfloat" where
  "py_max a b = (if flt a b then b else a)"

section \<open>Screening criteria\<close>

text \<open>The dataclass \<open>ScreenerCriteria\<close>; the thresholds are finite configuration numbers.\<close>

record criteria =
  min_daily_volume_krw :: real
  max_listing_days :: int
  min_decline_from_ath :: real
  volatility_min :: real
  volatility_max :: real
  cci_min :: real
  cci_max :: real
  cci_period :: nat
  rsi_min :: real
  rsi_max :: real
  rsi_period :: nat
  min_market_cap_krw :: real
  max_market_cap_krw :: real
  volume_growth_min :: real
  volume_growth_days :: nat
  max_consecutive_decline :: int
  max_recent_spike :: real
  recent_spike_days :: nat
  require_above_ma :: bool
  ma_period :: nat

definition default_criteria :: criteria where
  "default_criteria = \<lparr>
     min_daily_volume_krw = 100000000,
     max_listing_days = 1648,
     min_decline_from_ath = 30,
     volatility_min = 10,
     volatility_max = 150,
     cci_min = - 200,
     cci_max = 200,
     cci_period = 20,
     rsi_min = 20,
     rsi_max = 80,
     rsi_period = 14,
     min_market_cap_krw = 10000000000,
     max_market_cap_krw = 500000000000,
     volume_growth_min = 50,
     volume_growth_days = 7,
     max_consecutive_decline = 5,
     max_recent_spike = 30,
     recent_spike_days = 3,
     require_above_ma = True,
     ma_period = 20 \<rparr>"

section \<open>Composite scorer\<close>

text \<open>
  The local variables of \<open>calculate_score\<close>, one definition each, in the order of the
  source. \<open>volume_score\<close> is only reached with a non-zero volume floor (see
  \<open>calculate_score\<close>).
\<close>

definition volume_score :: "criteria \<Rightarrow> pyfloat \<Rightarrow> pyfloat" where
  "volume_score crit volume =
     py_min (Fin 15) (fmul (fdiv volume (Fin (min_daily_volume_krw crit))) (Fin 7.5))"

definition ath_score :: "pyfloat \<Rightarrow> pyfloat" where
  "ath_score ath_decline = py_min (Fin 15) (fmul (fdiv ath_decline (Fin 100)) (Fin 15))"

definition volatility_mid :: "criteria \<Rightarrow> real" where
  "volatility_mid crit = (volatility_min crit + volatility_max crit) / 2"

definition volatility_score :: "criteria \<Rightarrow> pyfloat \<Rightarrow> pyfloat" where
  "volatility_score crit volatility =
     py_max (Fin 0)
       (fsub (Fin 15) (fmul (fabs (fsub volatility (Fin (volatility_mid crit)))) (Fin 0.3)))"

definition cci_score :: "pyfloat \<Rightarrow> pyfloat" where
  "cci_score cci = py_max (Fin 0) (fsub (Fin 15) (fmul (fabs cci) (Fin 0.3)))"

definition rsi_optimal :: real where
  "rsi_optimal = 50"

definition rsi_score :: "pyfloat \<Rightarrow> pyfloat" where
  "rsi_score rsi =
     py_max (Fin 0) (fsub (Fin 15) (fmul (fabs (fsub rsi (Fin rsi_optimal))) (Fin 0.3)))"

definition market_cap_optimal :: real where
  "market_cap_optimal = 100000000000"

definition market_cap_score :: "pyfloat \<Rightarrow> pyfloat" where
  "market_cap_score market_cap =
     py_max (Fin 0)
       (fsub (Fin 15)
          (fmul (fdiv (fabs (fsub market_cap (Fin market_cap_optimal))) (Fin market_cap_optimal))
             (Fin 10)))"

definition volume_growth_score :: "pyfloat \<Rightarrow> pyfloat" where
  "volume_growth_score volume_growth =
     py_max (Fin 0) (py_min (Fin 10) (fmul (fdiv volume_growth (Fin 100)) (Fin 10)))"

text \<open>
  \<open>calculate_score\<close>. The only operation of the body that can raise is the Python division
  by the volume floor, a \<open>ZeroDivisionError\<close> when the floor is zero; the handler then
  returns \<open>0.0\<close>.
\<close>

definition calculate_score ::
  "criteria \<Rightarrow> pyfloat \<Rightarrow> pyfloat \<Rightarrow> pyfloat \<Rightarrow> pyfloat \<Rightarrow> pyfloat \<Rightarrow> pyfloat \<Rightarrow> pyfloat \<Rightarrow> pyfloat" where
  "calculate_score crit volume ath_decline volatility cci rsi market_cap volume_growth =
     (if min_daily_volume_krw crit = 0 then Fin 0
      else fadd (fadd (fadd (fadd (fadd (fadd
             (volume_score crit volume)
             (ath_score ath_decline))
             (volatility_score crit volatility))
             (cci_score cci))
             (rsi_score rsi))
             (market_cap_score market_cap))
             (volume_growth_score volume_growth))"

text \<open>
  \<open>get_recommendation\<close>. The four tier strings of the source are Korean
  (very recommended, recommended, watch, needs review); they are modelled as an enumeration.
\<close>

datatype recommendation = VeryRecommended | Recommended | Watch | NeedsReview

definition get_recommendation :: "pyfloat \<Rightarrow> recommendation" where
  "get_recommendation score =
     (if fle (Fin 80) score then VeryRecommended
      else if fle (Fin 60) score then Recommended
      else if fle (Fin 40) score then Watch
      else NeedsReview)"

text \<open>
  \<open>generate_reason\<close>. The phrases are Korean strings in the source; each is one constructor
  here, in the order of the source. The phrase for a stable RSI carries the RSI it prints.
\<close>

datatype phrase =
  HighVolume | EnoughVolume | BigUpside | Upside | StableRsi pyfloat | Oversold
  | StableVolatility | HighVolatility | VolumeSurge | VolumeIncrease | BasicConditions

definition generate_reason ::
  "pyfloat \<Rightarrow> pyfloat \<Rightarrow> pyfloat \<Rightarrow> pyfloat \<Rightarrow> pyfloat \<Rightarrow> phrase list" where
  "generate_reason volume ath_decline rsi volatility volume_growth =
     (let reasons =
            (if flt (Fin 200000000) volume then [HighVolume]
             else if flt (Fin 100000000) volume then [EnoughVolume] else [])
          @ (if flt (Fin 50) ath_decline then [BigUpside]
             else if flt (Fin 30) ath_decline then [Upside] else [])
          @ (if fle (Fin 30) rsi \<and> fle rsi (Fin 70) then [StableRsi rsi]
             else if flt rsi (Fin 30) then [Oversold] else [])
          @ (if flt volatility (Fin 50) then [StableVolatility]
             else if flt (Fin 100) volatility then [HighVolatility] else [])
          @ (if flt (Fin 50) volume_growth then [VolumeSurge]
             else if flt (Fin 20) volume_growth then [VolumeIncrease] else []);
          selected_reasons = take 3 reasons
      in if selected_reasons \<noteq> [] then selected_reasons else [BasicConditions])"

section \<open>Python values, dictionaries and exceptions\<close>

datatype exn = TypeError | KeyError | ZeroDivisionError | RequestError

datatype pyval = PyNone | PyBool bool | PyNum pyfloat | PyStr string

text \<open>A dictionary with string keys; \<open>d.get(k, default)\<close>; the truth value of an object.\<close>

type_synonym pydict = "(string \<times> pyval) list"

definition dict_get :: "pydict \<Rightarrow> string \<Rightarrow> pyval \<Rightarrow> pyval" where
  "dict_get d k dflt = (case map_of d k of Some v \<Rightarrow> v | None \<Rightarrow> dflt)"

fun truthy :: "pyval \<Rightarrow> bool" where
  "truthy PyNone = False"
| "truthy (PyBool b) = b"
| "truthy (PyNum x) = (x \<noteq> Fin 0)"
| "truthy (PyStr s) = (s \<noteq> [])"

text \<open>
  The number an object stands for in a comparison with a float or in a float format
  specification; \<open>None\<close> and strings raise there.
\<close>

fun as_float :: "pyval \<Rightarrow> exn + pyfloat" where
  "as_float (PyNum x) = Inr x"
| "as_float (PyBool b) = Inr (Fin (if b then 1 else 0))"
| "as_float PyNone = Inl TypeError"
| "as_float (PyStr s) = Inl TypeError"

section \<open>Indicator engine\<close>

text \<open>
  A row of the OHLCV data frame (the timestamp index is not used by the indicators); the
  prices of a row are finite numbers.
  The \<open>ta\<close> package is imported if it is installed; it is not part of the repository, so
  its two indicators are parameters. \<open>None\<close> stands for \<open>ta = None\<close>, which selects the
  manual computations.
\<close>

record ohlcv =
  open_price :: real
  high :: real
  low :: real
  close :: real
  volume :: real

record ta_lib =
  ta_rsi :: "pyfloat list \<Rightarrow> nat \<Rightarrow> exn + pyfloat list"
  ta_cci :: "ohlcv list \<Rightarrow> nat \<Rightarrow> exn + pyfloat list"

definition fsum :: "pyfloat list \<Rightarrow> pyfloat" where
  "fsum xs = foldl fadd (Fin 0) xs"

definition fmean :: "pyfloat list \<Rightarrow> pyfloat" where
  "fmean xs = fdiv (fsum xs) (Fin (real (length xs)))"

text \<open>
  \<open>Series.rolling(window=w)\<close> followed by an aggregation: position \<open>i\<close> holds the
  aggregate of the \<open>w\<close> values ending at \<open>i\<close>, and NaN while the window is incomplete or
  holds a NaN.
\<close>

definition rolling :: "nat \<Rightarrow> (pyfloat list \<Rightarrow> pyfloat) \<Rightarrow> pyfloat list \<Rightarrow> pyfloat list" where
  "rolling window f xs =
     map (\<lambda>i. if window = 0 \<or> i + 1 < window then NaN
              else (let w = take window (drop (i + 1 - window) xs)
                    in if list_ex isna w then NaN else f w))
       [0..<length xs]"

text \<open>\<open>Series.diff()\<close>: the first entry is NaN.\<close>

fun series_diff :: "pyfloat list \<Rightarrow> pyfloat list" where
  "series_diff [] = []"
| "series_diff (p # ps) = NaN # map2 (\<lambda>a b. fsub b a) (p # ps) ps"

text \<open>
  \<open>_calculate_rsi_manual\<close>; \<open>rsi_gain\<close> and \<open>rsi_loss\<close> are its locals \<open>gain\<close> and
  \<open>loss\<close>.
\<close>

definition rsi_gain :: "pyfloat list \<Rightarrow> nat \<Rightarrow> pyfloat list" where
  "rsi_gain prices period =
     rolling period fmean (map (\<lambda>d. if flt (Fin 0) d then d else Fin 0) (series_diff prices))"

definition rsi_loss :: "pyfloat list \<Rightarrow> nat \<Rightarrow> pyfloat list" where
  "rsi_loss prices period =
     rolling period fmean
       (map (\<lambda>d. fneg (if flt d (Fin 0) then d else Fin 0)) (series_diff prices))"

definition calculate_rsi_manual :: "pyfloat list \<Rightarrow> nat \<Rightarrow> pyfloat list" where
  "calculate_rsi_manual prices period =
     (let gain = rsi_gain prices period;
          loss = rsi_loss prices period;
          rs = map2 fdiv gain loss
      in map (\<lambda>r. fsub (Fin 100) (fdiv (Fin 100) (fadd (Fin 1) r))) rs)"

text \<open>
  \<open>calculate_rsi\<close> and \<open>calculate_cci\<close> return the data frame; what the evaluators read
  from it is the new column, absent when the computation raised and the handler returned
  the frame unchanged.
\<close>

definition calculate_rsi :: "ta_lib option \<Rightarrow> ohlcv list \<Rightarrow> nat \<Rightarrow> pyfloat list option" where
  "calculate_rsi ta df period =
     (case ta of
        Some lib \<Rightarrow>
          (case ta_rsi lib (map (\<lambda>r. Fin (close r)) df) period of
             Inl e \<Rightarrow> None
           | Inr col \<Rightarrow> Some col)
      | None \<Rightarrow> Some (calculate_rsi_manual (map (\<lambda>r. Fin (close r)) df) period))"

definition typical_price :: "ohlcv list \<Rightarrow> pyfloat list" where
  "typical_price df = map (\<lambda>r. Fin ((high r + low r + close r) / 3)) df"

definition mean_abs_deviation :: "pyfloat list \<Rightarrow> pyfloat" where
  "mean_abs_deviation x = fmean (map (\<lambda>v. fabs (fsub v (fmean x))) x)"

text \<open>
  The manual branch of \<open>calculate_cci\<close>; \<open>cci_sma_tp\<close> and \<open>cci_mean_deviation\<close> are
  its locals \<open>sma_tp\<close> and \<open>mean_deviation\<close>.
\<close>

definition cci_sma_tp :: "ohlcv list \<Rightarrow> nat \<Rightarrow> pyfloat list" where
  "cci_sma_tp df period = rolling period fmean (typical_price df)"

definition cci_mean_deviation :: "ohlcv list \<Rightarrow> nat \<Rightarrow> pyfloat list" where
  "cci_mean_deviation df period = rolling period mean_abs_deviation (typical_price df)"

definition calculate_cci_manual :: "ohlcv list \<Rightarrow> nat \<Rightarrow> pyfloat list" where
  "calculate_cci_manual df period =
     (let tp = typical_price df;
          sma_tp = cci_sma_tp df period;
          mean_deviation = cci_mean_deviation df period
      in map (\<lambda>(t, s, m). fdiv (fsub t s) (fmul (Fin 0.015) m))
           (zip tp (zip sma_tp mean_deviation)))"

definition calculate_cci :: "ta_lib option \<Rightarrow> ohlcv list \<Rightarrow> nat \<Rightarrow> pyfloat list option" where
  "calculate_cci ta df period =
     (case ta of
        Some lib \<Rightarrow>
          (case ta_cci lib df period of
             Inl e \<Rightarrow> None
           | Inr col \<Rightarrow> Some col)
      | None \<Rightarrow> Some (calculate_cci_manual df period))"

section \<open>Market-data collector\<close>

text \<open>
  The collector answers from the exchange's HTTP interface. What a call returned for a
  market is a field of the record below, \<open>Inl\<close> when the call raised; the number
  arguments are the \<open>days\<close> the caller passes.
\<close>

record collector =
  get_krw_markets :: "exn + string list"
  get_volume_info :: "string \<Rightarrow> nat \<Rightarrow> exn + pydict"
  get_all_time_high :: "string \<Rightarrow> exn + pydict"
  calculate_volatility :: "string \<Rightarrow> nat \<Rightarrow> exn + pyfloat"
  get_ohlcv_dataframe :: "string \<Rightarrow> nat \<Rightarrow> exn + ohlcv list"
  get_volume_growth :: "string \<Rightarrow> nat \<Rightarrow> exn + pydict"
  get_ticker_info :: "string list \<Rightarrow> exn + pydict list"
  get_listing_info :: "string \<Rightarrow> exn + pydict"

text \<open>
  A daily candle of the exchange, newest first in the list \<open>get_candles_daily\<close> returns;
  that list is empty when the request failed.
\<close>

record candle =
  opening_price :: real
  high_price :: real
  low_price :: real
  trade_price :: real
  candle_acc_trade_price :: real
  candle_acc_trade_volume :: real

text \<open>
  \<open>get_price_vs_moving_average\<close>, from the candles it fetched. The two divisions raise
  \<open>ZeroDivisionError\<close> on a zero divisor, and the handler returns the default dictionary.
\<close>

definition ma_default :: pydict where
  "ma_default =
     [(''position'', PyNum (Fin 0)), (''ma_value'', PyNum (Fin 0)),
      (''current_price'', PyNum (Fin 0))]"

definition get_price_vs_moving_average :: "candle list \<Rightarrow> nat \<Rightarrow> pydict" where
  "get_price_vs_moving_average candles period =
     (if candles = [] \<or> length candles < period then ma_default
      else
        (let current_price = trade_price (hd candles);
             prices = map trade_price (take period candles)
         in if prices = [] then ma_default
            else
              (let ma_value = sum_list prices / real (length prices)
               in if ma_value = 0 then ma_default
                  else
                    [(''position'', PyNum (Fin ((current_price - ma_value) / ma_value * 100))),
                     (''ma_value'', PyNum (Fin ma_value)),
                     (''current_price'', PyNum (Fin current_price))])))"

text \<open>
  \<open>check_consecutive_decline\<close>, from the candles it fetched. The loop counts, from the
  newest candle, the closes lower than the close of the day before, and stops at the first
  that is not; it makes at most \<open>n\<close> comparisons.
\<close>

fun decline_run :: "nat \<Rightarrow> real list \<Rightarrow> nat" where
  "decline_run (Suc n) (a # b # ps) = (if a < b then Suc (decline_run n (b # ps)) else 0)"
| "decline_run n ps = 0"

definition check_consecutive_decline :: "candle list \<Rightarrow> int \<Rightarrow> pydict" where
  "check_consecutive_decline candles days =
     (if candles = [] \<or> int (length candles) < days
      then [(''consecutive_decline'', PyNum (Fin 0)), (''is_declining'', PyBool False)]
      else
        (let consecutive_count =
               decline_run (nat (min days (int (length candles) - 1))) (map trade_price candles)
         in [(''consecutive_decline'', PyNum (Fin (real consecutive_count))),
             (''is_declining'', PyBool (days \<le> int consecutive_count))]))"

section \<open>Criterion evaluators\<close>

text \<open>
  Each evaluator is a \<open>try\<close> block around one collector call. The evaluator is modelled as
  a function of what that call returned, and every path of the source into the handler
  is a branch that returns the handler's value.
\<close>

definition check_volume_criteria :: "criteria \<Rightarrow> exn + pydict \<Rightarrow> bool \<times> pyfloat" where
  "check_volume_criteria crit r =
     (case r of
        Inl e \<Rightarrow> (False, Fin 0)
      | Inr volume_info \<Rightarrow>
          if volume_info = [] then (False, Fin 0)
          else
            (case as_float (dict_get volume_info ''avg_volume_krw'' (PyNum (Fin 0))) of
               Inl e \<Rightarrow> (False, Fin 0)
             | Inr avg_volume \<Rightarrow>
                 (fle (Fin (min_daily_volume_krw crit)) avg_volume, avg_volume)))"

definition check_ath_decline_criteria ::
  "criteria \<Rightarrow> exn + pydict \<Rightarrow> bool \<times> pyval \<times> pyfloat" where
  "check_ath_decline_criteria crit r =
     (case r of
        Inl e \<Rightarrow> (False, PyNum (Fin 0), Fin 0)
      | Inr ath_info \<Rightarrow>
          if ath_info = [] then (False, PyNum (Fin 0), Fin 0)
          else
            (let ath = dict_get ath_info ''all_time_high'' (PyNum (Fin 0))
             in case as_float (dict_get ath_info ''decline_from_ath'' (PyNum (Fin 0))) of
                  Inl e \<Rightarrow> (False, PyNum (Fin 0), Fin 0)
                | Inr decline_rate \<Rightarrow>
                    (fle (Fin (min_decline_from_ath crit)) decline_rate, ath, decline_rate)))"

definition check_volatility_criteria :: "criteria \<Rightarrow> exn + pyfloat \<Rightarrow> bool \<times> pyfloat" where
  "check_volatility_criteria crit r =
     (case r of
        Inl e \<Rightarrow> (False, Fin 0)
      | Inr volatility \<Rightarrow>
          (fle (Fin (volatility_min crit)) volatility \<and> fle volatility (Fin (volatility_max crit)),
           volatility))"

definition check_cci_criteria ::
  "criteria \<Rightarrow> ta_lib option \<Rightarrow> exn + ohlcv list \<Rightarrow> bool \<times> pyfloat" where
  "check_cci_criteria crit ta r =
     (case r of
        Inl e \<Rightarrow> (False, Fin 0)
      | Inr df \<Rightarrow>
          if df = [] then (False, Fin 0)
          else
            (case calculate_cci ta df (cci_period crit) of
               None \<Rightarrow> (False, Fin 0)
             | Some col \<Rightarrow>
                 if col = [] then (False, Fin 0)
                 else
                   (let current_cci = last col
                    in if isna current_cci then (False, Fin 0)
                       else (fle (Fin (cci_min crit)) current_cci
                               \<and> fle current_cci (Fin (cci_max crit)),
                             current_cci))))"

definition check_rsi_criteria ::
  "criteria \<Rightarrow> ta_lib option \<Rightarrow> exn + ohlcv list \<Rightarrow> bool \<times> pyfloat" where
  "check_rsi_criteria crit ta r =
     (case r of
        Inl e \<Rightarrow> (False, Fin 0)
      | Inr df \<Rightarrow>
          if df = [] then (False, Fin 0)
          else
            (case calculate_rsi ta df (rsi_period crit) of
               None \<Rightarrow> (False, Fin 0)
             | Some col \<Rightarrow>
                 if col = [] then (False, Fin 0)
                 else
                   (let current_rsi = last col
                    in if isna current_rsi then (False, Fin 0)
                       else (fle (Fin (rsi_min crit)) current_rsi
                               \<and> fle current_rsi (Fin (rsi_max crit)),
                             current_rsi))))"


definition check_volume_growth_criteria :: "criteria \<Rightarrow> exn + pydict \<Rightarrow> bool \<times> pyfloat" where
  "check_volume_growth_criteria crit r =
     (case r of
        Inl e \<Rightarrow> (False, Fin 0)
      | Inr volume_growth_info \<Rightarrow>
          if volume_growth_info = [] then (False, Fin 0)
          else
            (case as_float (dict_get volume_growth_info ''growth_rate'' (PyNum (Fin 0))) of
               Inl e \<Rightarrow> (False, Fin 0)
             | Inr growth_rate \<Rightarrow>
                 (fle (Fin (volume_growth_min crit)) growth_rate, growth_rate)))"

text \<open>
  \<open>check_consecutive_decline_criteria\<close> reads the key \<open>consecutive_decline_days\<close>.
\<close>

definition check_consecutive_decline_criteria ::
  "criteria \<Rightarrow> exn + pydict \<Rightarrow> bool \<times> pyfloat" where
  "check_consecutive_decline_criteria crit r =
     (case r of
        Inl e \<Rightarrow> (False, Fin 0)
      | Inr decline_info \<Rightarrow>
          if decline_info = [] then (False, Fin 0)
          else
            (case as_float (dict_get decline_info ''consecutive_decline_days'' (PyNum (Fin 0))) of
               Inl e \<Rightarrow> (False, Fin 0)
             | Inr consecutive_decline_days \<Rightarrow>
                 (flt consecutive_decline_days (Fin (real_of_int (max_consecutive_decline crit))),
                  consecutive_decline_days)))"


text \<open>
  \<open>check_moving_average_criteria\<close> reads the keys \<open>above_ma\<close> and \<open>position_vs_ma_pct\<close>;
  the position is formatted as a float for the log line before the return.
\<close>

definition check_moving_average_criteria :: "criteria \<Rightarrow> exn + pydict \<Rightarrow> bool \<times> pyfloat" where
  "check_moving_average_criteria crit r =
     (case r of
        Inl e \<Rightarrow> (False, Fin 0)
      | Inr ma_info \<Rightarrow>
          if ma_info = [] then (False, Fin 0)
          else
            (let above_ma = dict_get ma_info ''above_ma'' (PyBool False);
                 position_pct = dict_get ma_info ''position_vs_ma_pct'' (PyNum (Fin 0));
                 meets_criteria = (if require_above_ma crit then truthy above_ma else True)
             in case as_float position_pct of
                  Inl e \<Rightarrow> (False, Fin 0)
                | Inr p \<Rightarrow> (meets_criteria, p)))"

section \<open>Screening orchestrator\<close>

text \<open>The dataclass \<open>AltcoinCandidate\<close>.\<close>

record candidate =
  symbol :: string
  name :: pyval
  current_price :: pyval
  volume_krw :: pyfloat
  ath :: pyval
  ath_decline :: pyfloat
  volatility :: pyfloat
  cci :: pyfloat
  rsi :: pyfloat
  market_cap :: pyfloat
  volume_growth :: pyfloat
  consecutive_decline :: int
  recent_spike :: string
  ma_position :: pyfloat
  score :: pyfloat
  recommendation :: recommendation
  reason :: "phrase list"

text \<open>
  The ten criteria in the order of \<open>screen_single_market\<close>, and what the function does
  with each: it calls the evaluator and gets a verdict, or it assigns a hard-coded pass.
\<close>

datatype criterion =
  CVolume | CAthDecline | CVolatility | CCci | CRsi | CMarketCap | CVolumeGrowth
  | CDeclineStreak | CSpike | CMaPosition

datatype step = Evaluated criterion bool | Stubbed criterion

text \<open>
  \<open>screen_single_market\<close>. The first component of the result lists the steps the call
  went through, in order; the second is the value the source returns. Every exception
  after the evaluators (a ticker entry without \<open>trade_price\<close>, a raising collector call)
  ends in the handler, which returns \<open>None\<close>.
\<close>

definition screen_single_market_run ::
  "criteria \<Rightarrow> ta_lib option \<Rightarrow> collector \<Rightarrow> string \<Rightarrow> step list \<times> candidate option" where
  "screen_single_market_run crit ta coll market =
     (let (volume_ok, volume) = check_volume_criteria crit (get_volume_info coll market 7);
          t1 = [Evaluated CVolume volume_ok]
      in if \<not> volume_ok then (t1, None) else
     (let (ath_ok, ath, ath_decline) =
            check_ath_decline_criteria crit (get_all_time_high coll market);
          t2 = t1 @ [Evaluated CAthDecline ath_ok]
      in if \<not> ath_ok then (t2, None) else
     (let (volatility_ok, volatility) =
            check_volatility_criteria crit (calculate_volatility coll market 30);
          t3 = t2 @ [Evaluated CVolatility volatility_ok]
      in if \<not> volatility_ok then (t3, None) else
     (let (cci_ok, cci) = check_cci_criteria crit ta (get_ohlcv_dataframe coll market 50);
          t4 = t3 @ [Evaluated CCci cci_ok]
      in if \<not> cci_ok then (t4, None) else
     (let (rsi_ok, rsi) = check_rsi_criteria crit ta (get_ohlcv_dataframe coll market 50);
          t5 = t4 @ [Evaluated CRsi rsi_ok]
      in if \<not> rsi_ok then (t5, None) else
     (let market_cap = Fin 50000000000;
          t6 = t5 @ [Stubbed CMarketCap];
          (volume_growth_ok, volume_growth) =
            check_volume_growth_criteria crit
              (get_volume_growth coll market (volume_growth_days crit));
          t7 = t6 @ [Evaluated CVolumeGrowth volume_growth_ok]
      in if \<not> volume_growth_ok then (t7, None) else
     (let consecutive_decline = 2;
          recent_spike = ''none'';
          ma_position = Fin 5;
          t10 = t7 @ [Stubbed CDeclineStreak, Stubbed CSpike, Stubbed CMaPosition]
      in case get_ticker_info coll [market] of
           Inl e \<Rightarrow> (t10, None)
         | Inr [] \<Rightarrow> (t10, None)
         | Inr (ticker # rest) \<Rightarrow>
             (case map_of ticker ''trade_price'' of
                None \<Rightarrow> (t10, None)
              | Some p \<Rightarrow>
                  (let current_price = p;
                       score = calculate_score crit volume ath_decline volatility cci rsi
                                 market_cap volume_growth
                   in case get_listing_info coll market of
                        Inl e \<Rightarrow> (t10, None)
                      | Inr market_info \<Rightarrow>
                          (let name = dict_get market_info ''korean_name'' (PyStr market);
                               reason = generate_reason volume ath_decline rsi volatility
                                          volume_growth
                           in (t10,
                               Some \<lparr> symbol = market,
                                      name = name,
                                      current_price = current_price,
                                      volume_krw = volume,
                                      ath = ath,
                                      ath_decline = ath_decline,
                                      volatility = volatility,
                                      cci = cci,
                                      rsi = rsi,
                                      market_cap = market_cap,
                                      volume_growth = volume_growth,
                                      consecutive_decline = consecutive_decline,
                                      recent_spike = recent_spike,
                                      ma_position = ma_position,
                                      score = score,
                                      recommendation = get_recommendation score,
                                      reason = reason \<rparr>)))))))))))"

definition screen_single_market ::
  "criteria \<Rightarrow> ta_lib option \<Rightarrow> collector \<Rightarrow> string \<Rightarrow> candidate option" where
  "screen_single_market crit ta coll market = snd (screen_single_market_run crit ta coll market)"

text \<open>The screener's \<open>get_krw_markets\<close>: the collector's list without the excluded symbols.\<close>

definition exclude_symbols :: "string list" where
  "exclude_symbols =
     [''BTC/KRW'', ''ETH/KRW'', ''BNB/KRW'', ''ADA/KRW'', ''USDT/KRW'', ''USDC/KRW'',
      ''BUSD/KRW'', ''DAI/KRW'', ''TUSD/KRW'', ''FDUSD/KRW'']"

definition get_krw_markets_screener :: "collector \<Rightarrow> string list" where
  "get_krw_markets_screener coll =
     (case get_krw_markets coll of
        Inl e \<Rightarrow> []
      | Inr markets \<Rightarrow> filter (\<lambda>market. market \<notin> set exclude_symbols) markets)"

text \<open>
  \<open>candidates.sort(key=lambda x: x.score, reverse=True)\<close>. Python's sort is stable, also
  with \<open>reverse=True\<close>, and compares keys with \<open><\<close> only. It is modelled as the insertion
  sort that puts a candidate after those with a strictly greater score and before the
  rest.
\<close>

fun insert_by_score :: "candidate \<Rightarrow> candidate list \<Rightarrow> candidate list" where
  "insert_by_score c [] = [c]"
| "insert_by_score c (d # ds) =
     (if flt (score c) (score d) then d # insert_by_score c ds else c # d # ds)"

definition sort_by_score_reverse :: "candidate list \<Rightarrow> candidate list" where
  "sort_by_score_reverse cs = foldr insert_by_score cs []"

text \<open>
  \<open>screen_all_markets\<close>. \<open>collect_candidates\<close> is the loop over the markets, which
  appends every candidate that is not \<open>None\<close>.
\<close>

definition collect_candidates ::
  "criteria \<Rightarrow> ta_lib option \<Rightarrow> collector \<Rightarrow> string list \<Rightarrow> candidate list" where
  "collect_candidates crit ta coll markets =
     List.map_filter (screen_single_market crit ta coll) markets"

definition screen_all_markets :: "criteria \<Rightarrow> ta_lib option \<Rightarrow> collector \<Rightarrow> candidate list" where
  "screen_all_markets crit ta coll =
     (let markets = get_krw_markets_screener coll
      in if markets = [] then []
         else sort_by_score_reverse (collect_candidates crit ta coll markets))"

section \<open>The evaluator chain as a specification\<close>

text \<open>
  The chain the orchestrator is meant to follow: the ten criteria in their fixed order,
  each with the verdict its evaluator gives for the market (a hard-coded pass for the four
  stubbed criteria), cut after the first failing step.
\<close>

fun step_passed :: "step \<Rightarrow> bool" where
  "step_passed (Evaluated c ok) = ok"
| "step_passed (Stubbed c) = True"

definition chain_verdicts :: "criteria \<Rightarrow> ta_lib option \<Rightarrow> collector \<Rightarrow> string \<Rightarrow> step list" where
  "chain_verdicts crit ta coll market =
     [Evaluated CVolume (fst (check_volume_criteria crit (get_volume_info coll market 7))),
      Evaluated CAthDecline
        (fst (check_ath_decline_criteria crit (get_all_time_high coll market))),
      Evaluated CVolatility
        (fst (check_volatility_criteria crit (calculate_volatility coll market 30))),
      Evaluated CCci (fst (check_cci_criteria crit ta (get_ohlcv_dataframe coll market 50))),
      Evaluated CRsi (fst (check_rsi_criteria crit ta (get_ohlcv_dataframe coll market 50))),
      Stubbed CMarketCap,
      Evaluated CVolumeGrowth
        (fst (check_volume_growth_criteria crit
                (get_volume_growth coll market (volume_growth_days crit)))),
      Stubbed CDeclineStreak,
      Stubbed CSpike,
      Stubbed CMaPosition]"

fun step_criterion :: "step \<Rightarrow> criterion" where
  "step_criterion (Evaluated c ok) = c"
| "step_criterion (Stubbed c) = c"

definition chain_order :: "criterion list" where
  "chain_order =
     [CVolume, CAthDecline, CVolatility, CCci, CRsi, CMarketCap, CVolumeGrowth,
      CDeclineStreak, CSpike, CMaPosition]"

definition full_trace :: "step list" where
  "full_trace =
     [Evaluated CVolume True, Evaluated CAthDecline True, Evaluated CVolatility True,
      Evaluated CCci True, Evaluated CRsi True, Stubbed CMarketCap,
      Evaluated CVolumeGrowth True, Stubbed CDeclineStreak, Stubbed CSpike,
      Stubbed CMaPosition]"

definition short_circuit :: "step list \<Rightarrow> step list" where
  "short_circuit steps = takeWhile step_passed steps @ take 1 (dropWhile step_passed steps)"

text \<open>The six evaluators the orchestrator calls all pass for the market.\<close>

definition all_enabled_pass :: "criteria \<Rightarrow> ta_lib option \<Rightarrow> collector \<Rightarrow> string \<Rightarrow> bool" where
  "all_enabled_pass crit ta coll market =
     (fst (check_volume_criteria crit (get_volume_info coll market 7))
      \<and> fst (check_ath_decline_criteria crit (get_all_time_high coll market))
      \<and> fst (check_volatility_criteria crit (calculate_volatility coll market 30))
      \<and> fst (check_cci_criteria crit ta (get_ohlcv_dataframe coll market 50))
      \<and> fst (check_rsi_criteria crit ta (get_ohlcv_dataframe coll market 50))
      \<and> fst (check_volume_growth_criteria crit
                (get_volume_growth coll market (volume_growth_days crit))))"

text \<open>
  The two lookups after the evaluators succeed: the ticker call returns a non-empty list
  whose first entry has a \<open>trade_price\<close>, and the listing call returns.
\<close>

definition lookups_succeed :: "collector \<Rightarrow> string \<Rightarrow> bool" where
  "lookups_succeed coll market =
     ((case get_ticker_info coll [market] of
         Inl e \<Rightarrow> False
       | Inr [] \<Rightarrow> False
       | Inr (ticker # rest) \<Rightarrow> map_of ticker ''trade_price'' \<noteq> None)
      \<and> (case get_listing_info coll market of Inl e \<Rightarrow> False | Inr info \<Rightarrow> True))"

section \<open>Example inputs\<close>

text \<open>
  A market whose evaluators measure volume 5e9, decline 40, volatility 60, CCI 10, RSI 55
  and volume growth 30, with the \<open>ta\<close> package installed, and the default criteria with
  the volume-growth floor at 20.
\<close>

definition criteria_growth20 :: criteria where
  "criteria_growth20 = default_criteria\<lparr>volume_growth_min := 20\<rparr>"

definition ta_example :: ta_lib where
  "ta_example =
     \<lparr> ta_rsi = (\<lambda>prices period. Inr [Fin 55]), ta_cci = (\<lambda>df period. Inr [Fin 10]) \<rparr>"

definition collector_example :: collector where
  "collector_example = \<lparr>
     get_krw_markets = Inr [''KRW-XRP''],
     get_volume_info = (\<lambda>market days.
       Inr [(''market'', PyStr market), (''avg_volume_krw'', PyNum (Fin 5000000000))]),
     get_all_time_high = (\<lambda>market.
       Inr [(''market'', PyStr market), (''all_time_high'', PyNum (Fin 1000)),
            (''current_price'', PyNum (Fin 600)), (''decline_from_ath'', PyNum (Fin 40))]),
     calculate_volatility = (\<lambda>market days. Inr (Fin 60)),
     get_ohlcv_dataframe = (\<lambda>market days.
       Inr [\<lparr> open_price = 600, high = 600, low = 600, close = 600, volume = 1 \<rparr>]),
     get_volume_growth = (\<lambda>market days.
       Inr [(''market'', PyStr market), (''growth_rate'', PyNum (Fin 30))]),
     get_ticker_info = (\<lambda>markets.
       Inr [[(''market'', PyStr ''KRW-XRP''), (''trade_price'', PyNum (Fin 600))]]),
     get_listing_info = (\<lambda>market. Inr [(''korean_name'', PyStr ''XRP'')]) \<rparr>"

text \<open>
  Two markets: \<open>KRW-AAA\<close> with an average volume of 5e7, below the default floor of 1e8,
  and \<open>KRW-XRP\<close> as above.
\<close>

definition collector_two_markets :: collector where
  "collector_two_markets =
     collector_example\<lparr>
       get_krw_markets := Inr [''KRW-AAA'', ''KRW-XRP''],
       get_volume_info := (\<lambda>market days.
         Inr [(''market'', PyStr market),
              (''avg_volume_krw'',
               PyNum (Fin (if market = ''KRW-AAA'' then 50000000 else 5000000000)))]) \<rparr>"

text \<open>The same two markets when the ticker call returns an empty list.\<close>

definition collector_no_ticker :: collector where
  "collector_no_ticker = collector_two_markets\<lparr> get_ticker_info := (\<lambda>markets. Inr []) \<rparr>"

text \<open>
  Twenty daily candles, newest first: the latest close is 120 and the nineteen before it
  are 100, so the 20-day average is 101 and the latest close is above it.
\<close>

definition flat_candle :: "real \<Rightarrow> candle" where
  "flat_candle p =
     \<lparr> opening_price = p, high_price = p, low_price = p, trade_price = p,
       candle_acc_trade_price = 1, candle_acc_trade_volume = 1 \<rparr>"

definition candles_above_ma :: "candle list" where
  "candles_above_ma = flat_candle 120 # replicate 19 (flat_candle 100)"







text \<open>The candidate the orchestrator builds for \<open>KRW-XRP\<close> with the growth floor at 20.\<close>

definition xrp_candidate :: candidate where
  "xrp_candidate =
     \<lparr> symbol = ''KRW-XRP'', name = PyStr ''XRP'', current_price = PyNum (Fin 600),
       volume_krw = Fin 5000000000, ath = PyNum (Fin 1000), ath_decline = Fin 40,
       volatility = Fin 60, cci = Fin 10, rsi = Fin 55, market_cap = Fin 50000000000,
       volume_growth = Fin 30, consecutive_decline = 2, recent_spike = ''none'',
       ma_position = Fin 5, score = Fin 68.5, recommendation = Recommended,
       reason = [HighVolume, Upside, StableRsi (Fin 55)] \<rparr>"

section \<open>Properties of the float operations\<close>

lemma fle_fadd_upper: "fle a (Fin x) \<Longrightarrow> fle b (Fin y) \<Longrightarrow> fle (fadd a b) (Fin (x + y))"
  by (cases a; cases b) auto






lemma fle_not_NaN: "fle a b \<Longrightarrow> a \<noteq> NaN \<and> b \<noteq> NaN"
  by (cases a; cases b) auto

section \<open>The composite score\<close>

lemmas score_defs =
  calculate_score_def volume_score_def ath_score_def volatility_score_def volatility_mid_def
  cci_score_def rsi_score_def rsi_optimal_def market_cap_score_def market_cap_optimal_def
  volume_growth_score_def py_min_def py_max_def fsub_def

lemma volume_score_upper: "fle (volume_score crit v) (Fin 15)"
  by (cases v) (auto simp: volume_score_def py_min_def inf_of_sign_def)

lemma ath_score_upper: "fle (ath_score v) (Fin 15)"
  by (cases v) (auto simp: ath_score_def py_min_def inf_of_sign_def)

lemma volatility_score_range:
  "fle (Fin 0) (volatility_score crit v) \<and> fle (volatility_score crit v) (Fin 15)"
  by (cases v) (auto simp: volatility_score_def py_max_def fsub_def inf_of_sign_def)

lemma cci_score_range: "fle (Fin 0) (cci_score v) \<and> fle (cci_score v) (Fin 15)"
  by (cases v) (auto simp: cci_score_def py_max_def fsub_def inf_of_sign_def)

lemma rsi_score_range: "fle (Fin 0) (rsi_score v) \<and> fle (rsi_score v) (Fin 15)"
  by (cases v) (auto simp: rsi_score_def py_max_def fsub_def inf_of_sign_def)

lemma market_cap_score_range:
  "fle (Fin 0) (market_cap_score v) \<and> fle (market_cap_score v) (Fin 15)"
  by (cases v)
    (auto simp: market_cap_score_def market_cap_optimal_def py_max_def fsub_def inf_of_sign_def)

lemma volume_growth_score_range:
  "fle (Fin 0) (volume_growth_score v) \<and> fle (volume_growth_score v) (Fin 10)"
  by (cases v) (auto simp: volume_growth_score_def py_max_def py_min_def inf_of_sign_def)

lemmas sub_score_upper =
  volume_score_upper ath_score_upper conjunct2[OF volatility_score_range]
  conjunct2[OF cci_score_range] conjunct2[OF rsi_score_range]
  conjunct2[OF market_cap_score_range] conjunct2[OF volume_growth_score_range]




lemma calculate_score_upper: "fle (calculate_score crit v a vo c r m g) (Fin 100)"
proof (cases "min_daily_volume_krw crit = 0")
  case True
  then show ?thesis by (simp add: calculate_score_def)
next
  case False
  have "fle (fadd (fadd (fadd (fadd (fadd (fadd
             (volume_score crit v) (ath_score a)) (volatility_score crit vo))
             (cci_score c)) (rsi_score r)) (market_cap_score m)) (volume_growth_score g))
          (Fin (15 + 15 + 15 + 15 + 15 + 15 + 10))"
    by (intro fle_fadd_upper sub_score_upper)
  with False show ?thesis by (simp add: calculate_score_def)
qed


lemma calculate_score_not_NaN: "calculate_score crit v a vo c r m g \<noteq> NaN"
  using calculate_score_upper[of crit v a vo c r m g] by (auto dest: fle_not_NaN)




section \<open>Monotonicity of the score\<close>













section \<open>The screening orchestrator\<close>

lemma default_fields:
  "min_daily_volume_krw default_criteria = 100000000"
  "min_decline_from_ath default_criteria = 30"
  "volatility_min default_criteria = 10"
  "volatility_max default_criteria = 150"
  "cci_min default_criteria = - 200"
  "cci_max default_criteria = 200"
  "cci_period default_criteria = 20"
  "rsi_min default_criteria = 20"
  "rsi_max default_criteria = 80"
  "rsi_period default_criteria = 14"
  "min_market_cap_krw default_criteria = 10000000000"
  "max_market_cap_krw default_criteria = 500000000000"
  "volume_growth_min default_criteria = 50"
  "volume_growth_days default_criteria = 7"
  "max_consecutive_decline default_criteria = 5"
  "require_above_ma default_criteria = True"
  "ma_period default_criteria = 20"
  by (simp_all add: default_criteria_def)

lemma growth20_fields:
  "min_daily_volume_krw criteria_growth20 = 100000000"
  "min_decline_from_ath criteria_growth20 = 30"
  "volatility_min criteria_growth20 = 10"
  "volatility_max criteria_growth20 = 150"
  "cci_min criteria_growth20 = - 200"
  "cci_max criteria_growth20 = 200"
  "cci_period criteria_growth20 = 20"
  "rsi_min criteria_growth20 = 20"
  "rsi_max criteria_growth20 = 80"
  "rsi_period criteria_growth20 = 14"
  "volume_growth_min criteria_growth20 = 20"
  "volume_growth_days criteria_growth20 = 7"
  by (simp_all add: criteria_growth20_def default_fields)

lemma run_trace:
  "fst (screen_single_market_run crit ta coll market) =
     short_circuit (chain_verdicts crit ta coll market)"
  unfolding screen_single_market_run_def chain_verdicts_def short_circuit_def
  by (simp add: Let_def split: prod.splits sum.splits list.splits option.splits)

lemma run_result_iff:
  "(screen_single_market crit ta coll market \<noteq> None) =
     (all_enabled_pass crit ta coll market \<and> lookups_succeed coll market)"
  unfolding screen_single_market_def screen_single_market_run_def all_enabled_pass_def
    lookups_succeed_def
  by (auto simp add: Let_def split: prod.splits sum.splits list.splits option.splits)

lemma run_result_symbol:
  "screen_single_market crit ta coll market = Some c \<Longrightarrow> symbol c = market"
  unfolding screen_single_market_def screen_single_market_run_def
  by (auto simp add: Let_def split: prod.splits sum.splits list.splits option.splits if_splits)

lemma run_result_score:
  "screen_single_market crit ta coll market = Some c \<Longrightarrow> score c \<noteq> NaN"
  unfolding screen_single_market_def screen_single_market_run_def
  by (auto simp add: Let_def calculate_score_not_NaN
      split: prod.splits sum.splits list.splits option.splits if_splits)

lemma flt_imp_fle: "flt a b \<Longrightarrow> fle a b"
  by (cases a; cases b) auto

lemma flt_imp_neq: "flt a b \<Longrightarrow> a \<noteq> b"
  by (cases a; cases b) auto

lemma not_flt_imp_fle: "\<not> flt a b \<Longrightarrow> a \<noteq> NaN \<Longrightarrow> b \<noteq> NaN \<Longrightarrow> fle b a"
  by (cases a; cases b) auto

lemma fle_trans: "fle a b \<Longrightarrow> fle b c \<Longrightarrow> fle a c"
  by (cases a; cases b; cases c) auto

lemma set_insert_by_score: "set (insert_by_score c ds) = insert c (set ds)"
  by (induction ds) auto

lemma set_sort_by_score_reverse: "set (sort_by_score_reverse cs) = set cs"
  by (induction cs) (auto simp: sort_by_score_reverse_def set_insert_by_score)

lemma filter_insert_by_score:
  "filter (\<lambda>d. score d = s) (insert_by_score c ds) =
     (if score c = s then c # filter (\<lambda>d. score d = s) ds else filter (\<lambda>d. score d = s) ds)"
  by (induction ds) (auto dest: flt_imp_neq)

lemma filter_sort_by_score_reverse:
  "filter (\<lambda>d. score d = s) (sort_by_score_reverse cs) = filter (\<lambda>d. score d = s) cs"
  by (induction cs) (auto simp: sort_by_score_reverse_def filter_insert_by_score)

lemma sorted_insert_by_score:
  assumes "sorted_wrt (\<lambda>a b. fle (score b) (score a)) ds"
    and "score c \<noteq> NaN" and "\<forall>d \<in> set ds. score d \<noteq> NaN"
  shows "sorted_wrt (\<lambda>a b. fle (score b) (score a)) (insert_by_score c ds)"
  using assms
proof (induction ds)
  case Nil
  then show ?case by simp
next
  case (Cons d ds)
  show ?case
  proof (cases "flt (score c) (score d)")
    case True
    with Cons show ?thesis
      by (auto simp: set_insert_by_score dest: flt_imp_fle)
  next
    case False
    with Cons.prems have dc: "fle (score d) (score c)"
      by (auto intro: not_flt_imp_fle)
    with Cons.prems False show ?thesis
      by (auto intro: fle_trans)
  qed
qed

lemma sorted_sort_by_score_reverse:
  "\<forall>c \<in> set cs. score c \<noteq> NaN \<Longrightarrow>
   sorted_wrt (\<lambda>a b. fle (score b) (score a)) (sort_by_score_reverse cs)"
proof (induction cs)
  case Nil
  then show ?case by (simp add: sort_by_score_reverse_def)
next
  case (Cons c cs)
  then have "sorted_wrt (\<lambda>a b. fle (score b) (score a)) (sort_by_score_reverse cs)"
    by simp
  from sorted_insert_by_score[OF this, of c] Cons.prems
  show ?case by (simp add: sort_by_score_reverse_def set_sort_by_score_reverse[unfolded sort_by_score_reverse_def])
qed

lemma set_collect_candidates:
  "set (collect_candidates crit ta coll markets) =
     {c. \<exists>m \<in> set markets. screen_single_market crit ta coll m = Some c}"
  by (induction markets) (auto simp: collect_candidates_def split: option.splits)

lemma symbols_collect_candidates:
  "map symbol (collect_candidates crit ta coll markets) =
     filter (\<lambda>m. screen_single_market crit ta coll m \<noteq> None) markets"
  by (induction markets) (auto simp: collect_candidates_def run_result_symbol split: option.splits)

lemma set_screen_all_markets:
  "set (screen_all_markets crit ta coll) =
     {c. \<exists>m \<in> set (get_krw_markets_screener coll). screen_single_market crit ta coll m = Some c}"
  by (auto simp: screen_all_markets_def Let_def set_sort_by_score_reverse set_collect_candidates)

lemma run_pass:
  assumes "check_volume_criteria crit (get_volume_info coll market 7) = (True, v)"
    and "check_ath_decline_criteria crit (get_all_time_high coll market) = (True, h, a)"
    and "check_volatility_criteria crit (calculate_volatility coll market 30) = (True, vo)"
    and "check_cci_criteria crit ta (get_ohlcv_dataframe coll market 50) = (True, c)"
    and "check_rsi_criteria crit ta (get_ohlcv_dataframe coll market 50) = (True, r)"
    and "check_volume_growth_criteria crit
           (get_volume_growth coll market (volume_growth_days crit)) = (True, g)"
    and "get_ticker_info coll [market] = Inr (ticker # rest)"
    and "map_of ticker ''trade_price'' = Some p"
    and "get_listing_info coll market = Inr info"
  shows "screen_single_market_run crit ta coll market =
     (full_trace,
      Some \<lparr> symbol = market, name = dict_get info ''korean_name'' (PyStr market),
             current_price = p, volume_krw = v, ath = h, ath_decline = a,
             volatility = vo, cci = c, rsi = r, market_cap = Fin 50000000000,
             volume_growth = g, consecutive_decline = 2, recent_spike = ''none'',
             ma_position = Fin 5,
             score = calculate_score crit v a vo c r (Fin 50000000000) g,
             recommendation = get_recommendation (calculate_score crit v a vo c r (Fin 50000000000) g),
             reason = generate_reason v a r vo g \<rparr>)"
  unfolding screen_single_market_run_def full_trace_def
  by (simp add: assms Let_def)

lemma short_circuit_Suc:
  "short_circuit xs = take (Suc (length (takeWhile step_passed xs))) xs"
  by (induction xs) (simp_all add: short_circuit_def)

lemma short_circuit_take:
  "take (length (short_circuit xs)) xs = short_circuit xs"
proof -
  have "take (length (take k xs)) xs = take k xs" for k
    by (cases "k \<le> length xs") (simp_all add: min_def)
  then show ?thesis by (simp only: short_circuit_Suc[of xs])
qed

lemma short_circuit_Cons:
  "short_circuit (x # xs) = (if step_passed x then x # short_circuit xs else [x])"
  by (simp add: short_circuit_def)

lemma short_circuit_butlast: "list_all step_passed (butlast (short_circuit xs))"
  by (induction xs) (simp_all add: short_circuit_Cons, simp add: short_circuit_def)

lemma two_markets_evaluators:
  "check_volume_criteria crit (get_volume_info collector_two_markets ''KRW-XRP'' 7) =
     (fle (Fin (min_daily_volume_krw crit)) (Fin 5000000000), Fin 5000000000)"
  "check_volume_criteria crit (get_volume_info collector_two_markets ''KRW-AAA'' 7) =
     (fle (Fin (min_daily_volume_krw crit)) (Fin 50000000), Fin 50000000)"
  "check_ath_decline_criteria crit (get_all_time_high collector_two_markets mk) =
     (fle (Fin (min_decline_from_ath crit)) (Fin 40), PyNum (Fin 1000), Fin 40)"
  "check_volatility_criteria crit (calculate_volatility collector_two_markets mk 30) =
     (fle (Fin (volatility_min crit)) (Fin 60) \<and> fle (Fin 60) (Fin (volatility_max crit)), Fin 60)"
  "check_cci_criteria crit (Some ta_example) (get_ohlcv_dataframe collector_two_markets mk 50) =
     (fle (Fin (cci_min crit)) (Fin 10) \<and> fle (Fin 10) (Fin (cci_max crit)), Fin 10)"
  "check_rsi_criteria crit (Some ta_example) (get_ohlcv_dataframe collector_two_markets mk 50) =
     (fle (Fin (rsi_min crit)) (Fin 55) \<and> fle (Fin 55) (Fin (rsi_max crit)), Fin 55)"
  "check_volume_growth_criteria crit (get_volume_growth collector_two_markets mk n) =
     (fle (Fin (volume_growth_min crit)) (Fin 30), Fin 30)"
  "get_ticker_info collector_two_markets ms =
     Inr [[(''market'', PyStr ''KRW-XRP''), (''trade_price'', PyNum (Fin 600))]]"
  "get_listing_info collector_two_markets mk = Inr [(''korean_name'', PyStr ''XRP'')]"
  "get_krw_markets_screener collector_two_markets = [''KRW-AAA'', ''KRW-XRP'']"
  by (simp_all add: check_volume_criteria_def check_ath_decline_criteria_def
      check_volatility_criteria_def check_cci_criteria_def check_rsi_criteria_def
      check_volume_growth_criteria_def calculate_cci_def calculate_rsi_def
      get_krw_markets_screener_def exclude_symbols_def
      collector_two_markets_def collector_example_def ta_example_def dict_get_def)

lemma two_markets_xrp_passes:
  "all_enabled_pass criteria_growth20 (Some ta_example) collector_two_markets ''KRW-XRP''"
  "lookups_succeed collector_two_markets ''KRW-XRP''"
  by (simp_all add: all_enabled_pass_def lookups_succeed_def two_markets_evaluators growth20_fields)

lemma two_markets_aaa_fails:
  "\<not> fst (check_volume_criteria default_criteria (get_volume_info collector_two_markets ''KRW-AAA'' 7))"
  "\<not> fst (check_volume_criteria criteria_growth20 (get_volume_info collector_two_markets ''KRW-AAA'' 7))"
  by (simp_all add: two_markets_evaluators growth20_fields default_fields)


lemma two_markets_xrp_candidate:
  "screen_single_market criteria_growth20 (Some ta_example) collector_two_markets ''KRW-XRP'' =
     Some \<lparr> symbol = ''KRW-XRP'', name = PyStr ''XRP'', current_price = PyNum (Fin 600),
            volume_krw = Fin 5000000000, ath = PyNum (Fin 1000), ath_decline = Fin 40,
            volatility = Fin 60, cci = Fin 10, rsi = Fin 55, market_cap = Fin 50000000000,
            volume_growth = Fin 30, consecutive_decline = 2, recent_spike = ''none'',
            ma_position = Fin 5, score = Fin 68.5, recommendation = Recommended,
            reason = [HighVolume, Upside, StableRsi (Fin 55)] \<rparr>"
proof -
  have sc: "calculate_score criteria_growth20 (Fin 5000000000) (Fin 40) (Fin 60) (Fin 10) (Fin 55)
     (Fin 50000000000) (Fin 30) = Fin 68.5"
    by (simp add: score_defs growth20_fields)
  have rs: "generate_reason (Fin 5000000000) (Fin 40) (Fin 55) (Fin 60) (Fin 30)
     = [HighVolume, Upside, StableRsi (Fin 55)]"
    by (simp add: generate_reason_def)
  have rc: "get_recommendation (Fin 68.5) = Recommended"
    by (simp add: get_recommendation_def)
  have e:
    "check_volume_criteria criteria_growth20 (get_volume_info collector_two_markets ''KRW-XRP'' 7)
       = (True, Fin 5000000000)"
    "check_ath_decline_criteria criteria_growth20 (get_all_time_high collector_two_markets ''KRW-XRP'')
       = (True, PyNum (Fin 1000), Fin 40)"
    "check_volatility_criteria criteria_growth20
       (calculate_volatility collector_two_markets ''KRW-XRP'' 30) = (True, Fin 60)"
    "check_cci_criteria criteria_growth20 (Some ta_example)
       (get_ohlcv_dataframe collector_two_markets ''KRW-XRP'' 50) = (True, Fin 10)"
    "check_rsi_criteria criteria_growth20 (Some ta_example)
       (get_ohlcv_dataframe collector_two_markets ''KRW-XRP'' 50) = (True, Fin 55)"
    "check_volume_growth_criteria criteria_growth20
       (get_volume_growth collector_two_markets ''KRW-XRP'' (volume_growth_days criteria_growth20))
       = (True, Fin 30)"
    "get_ticker_info collector_two_markets [''KRW-XRP'']
       = Inr ([(''market'', PyStr ''KRW-XRP''), (''trade_price'', PyNum (Fin 600))] # [])"
    "map_of [(''market'', PyStr ''KRW-XRP''), (''trade_price'', PyNum (Fin 600))] ''trade_price''
       = Some (PyNum (Fin 600))"
    "get_listing_info collector_two_markets ''KRW-XRP'' = Inr [(''korean_name'', PyStr ''XRP'')]"
    by (simp_all add: two_markets_evaluators growth20_fields)
  show ?thesis
    by (simp add: screen_single_market_def run_pass[OF e] sc rs get_recommendation_def dict_get_def)
qed


lemma two_markets_aaa_rejected:
  "screen_single_market criteria_growth20 (Some ta_example) collector_two_markets ''KRW-AAA'' = None"
  using run_result_iff[of criteria_growth20 "Some ta_example" collector_two_markets "''KRW-AAA''"]
  by (simp add: all_enabled_pass_def two_markets_aaa_fails)

lemma two_markets_output:
  "map symbol (screen_all_markets criteria_growth20 (Some ta_example) collector_two_markets)
     = [''KRW-XRP'']"
  by (simp add: screen_all_markets_def collect_candidates_def two_markets_evaluators
      two_markets_aaa_rejected two_markets_xrp_candidate sort_by_score_reverse_def)

lemma verdicts_all_pass:
  "list_all step_passed (chain_verdicts crit ta coll market) = all_enabled_pass crit ta coll market"
  by (simp add: chain_verdicts_def all_enabled_pass_def)

lemma no_ticker_fields:
  "get_krw_markets_screener collector_no_ticker = get_krw_markets_screener collector_two_markets"
  "all_enabled_pass crit ta collector_no_ticker mk = all_enabled_pass crit ta collector_two_markets mk"
  "\<not> lookups_succeed collector_no_ticker mk"
  by (simp_all add: get_krw_markets_screener_def all_enabled_pass_def lookups_succeed_def
      collector_no_ticker_def)

text \<open>
  C1, as amended. For every market screened in a run, a candidate for it appears in the
  output list if and only if every enabled evaluator (volume, ATH decline, volatility, CCI,
  RSI, volume growth) returned pass for it and the two lookups that follow the evaluators
  succeeded: the ticker call returned an entry with a trade price and the listing call
  returned. A market for which an enabled evaluator fails is never in the output.
\<close>

theorem candidate_iff_all_pass_and_lookups:
  assumes "market \<in> set (get_krw_markets_screener coll)"
  shows "(\<exists>c \<in> set (screen_all_markets crit ta coll). symbol c = market)
     = (all_enabled_pass crit ta coll market \<and> lookups_succeed coll market)"
  unfolding run_result_iff[symmetric]
  using assms by (auto simp: set_screen_all_markets dest: run_result_symbol)

theorem candidate_iff_all_pass_and_lookups_witness:
  "''KRW-XRP'' \<in> set (get_krw_markets_screener collector_two_markets)
   \<and> all_enabled_pass criteria_growth20 (Some ta_example) collector_two_markets ''KRW-XRP''
   \<and> lookups_succeed collector_two_markets ''KRW-XRP''
   \<and> ''KRW-XRP''
       \<in> symbol ` set (screen_all_markets criteria_growth20 (Some ta_example) collector_two_markets)"
proof -
  have m: "''KRW-XRP'' \<in> set (get_krw_markets_screener collector_two_markets)"
    by (simp add: two_markets_evaluators)
  from candidate_iff_all_pass_and_lookups[OF m, of criteria_growth20 "Some ta_example"]
    two_markets_xrp_passes
  obtain c where "c \<in> set (screen_all_markets criteria_growth20 (Some ta_example)
      collector_two_markets)" and "symbol c = ''KRW-XRP''"
    by blast
  then have "''KRW-XRP''
       \<in> symbol ` set (screen_all_markets criteria_growth20 (Some ta_example) collector_two_markets)"
    by (metis image_eqI)
  with two_markets_xrp_passes m show ?thesis by blast
qed

text \<open>
  The claim as stated fails: with the ticker call returning an empty list, every enabled
  evaluator passes for \<open>KRW-XRP\<close> and the output is empty.
\<close>

theorem all_pass_without_ticker_counterexample:
  "''KRW-XRP'' \<in> set (get_krw_markets_screener collector_no_ticker)
   \<and> all_enabled_pass criteria_growth20 (Some ta_example) collector_no_ticker ''KRW-XRP''
   \<and> screen_all_markets criteria_growth20 (Some ta_example) collector_no_ticker = []"
proof -
  have "set (screen_all_markets criteria_growth20 (Some ta_example) collector_no_ticker) = {}"
    using run_result_iff[of criteria_growth20 "Some ta_example" collector_no_ticker]
    by (auto simp: set_screen_all_markets no_ticker_fields)
  then show ?thesis
    by (simp add: no_ticker_fields two_markets_evaluators two_markets_xrp_passes)
qed

text \<open>
  C2. The steps \<open>screen_single_market\<close> goes through are the chain of the ten criteria in
  the fixed order volume, ATH decline, volatility, CCI, RSI, market cap, volume growth,
  decline streak, spike, MA position, cut after the first failing step: every step before
  the last passed, and a failing step leaves the result \<open>None\<close>. A market whose volume
  evaluator fails is rejected after that single step and no candidate of the output has
  its symbol.
\<close>

theorem evaluator_chain_short_circuits:
  "map step_criterion (chain_verdicts crit ta coll market) = chain_order
   \<and> fst (screen_single_market_run crit ta coll market)
       = short_circuit (chain_verdicts crit ta coll market)
   \<and> take (length (fst (screen_single_market_run crit ta coll market)))
         (chain_verdicts crit ta coll market)
       = fst (screen_single_market_run crit ta coll market)
   \<and> list_all step_passed (butlast (fst (screen_single_market_run crit ta coll market)))
   \<and> (\<not> list_all step_passed (chain_verdicts crit ta coll market)
        \<longrightarrow> screen_single_market crit ta coll market = None)
   \<and> (\<not> fst (check_volume_criteria crit (get_volume_info coll market 7))
        \<longrightarrow> fst (screen_single_market_run crit ta coll market) = [Evaluated CVolume False]
            \<and> screen_single_market crit ta coll market = None
            \<and> (\<forall>c \<in> set (screen_all_markets crit ta coll). symbol c \<noteq> market))"
proof (intro conjI impI)
  show "map step_criterion (chain_verdicts crit ta coll market) = chain_order"
    by (simp add: chain_verdicts_def chain_order_def)
  show "fst (screen_single_market_run crit ta coll market)
       = short_circuit (chain_verdicts crit ta coll market)"
    by (rule run_trace)
  show "take (length (fst (screen_single_market_run crit ta coll market)))
         (chain_verdicts crit ta coll market)
       = fst (screen_single_market_run crit ta coll market)"
    by (simp only: run_trace short_circuit_take)
  show "list_all step_passed (butlast (fst (screen_single_market_run crit ta coll market)))"
    by (simp only: run_trace short_circuit_butlast)
next
  assume "\<not> list_all step_passed (chain_verdicts crit ta coll market)"
  then show "screen_single_market crit ta coll market = None"
    using run_result_iff[of crit ta coll market] by (simp add: verdicts_all_pass)
next
  assume v: "\<not> fst (check_volume_criteria crit (get_volume_info coll market 7))"
  then show "fst (screen_single_market_run crit ta coll market) = [Evaluated CVolume False]"
    by (simp add: run_trace chain_verdicts_def short_circuit_def)
  from v show none: "screen_single_market crit ta coll market = None"
    using run_result_iff[of crit ta coll market] by (simp add: all_enabled_pass_def)
  show "\<forall>c \<in> set (screen_all_markets crit ta coll). symbol c \<noteq> market"
  proof
    fix c assume "c \<in> set (screen_all_markets crit ta coll)"
    then obtain m where m: "screen_single_market crit ta coll m = Some c"
      by (auto simp: set_screen_all_markets)
    from run_result_symbol[OF m] m none show "symbol c \<noteq> market"
      by auto
  qed
qed

theorem evaluator_chain_short_circuits_witness:
  "\<not> fst (check_volume_criteria criteria_growth20
            (get_volume_info collector_two_markets ''KRW-AAA'' 7))
   \<and> \<not> list_all step_passed
          (chain_verdicts criteria_growth20 (Some ta_example) collector_two_markets ''KRW-AAA'')
   \<and> fst (screen_single_market_run criteria_growth20 (Some ta_example) collector_two_markets
            ''KRW-AAA'') = [Evaluated CVolume False]
   \<and> screen_single_market criteria_growth20 (Some ta_example) collector_two_markets ''KRW-AAA''
       = None
   \<and> map symbol (screen_all_markets criteria_growth20 (Some ta_example) collector_two_markets)
       = [''KRW-XRP'']"
proof -
  have v: "\<not> fst (check_volume_criteria criteria_growth20
            (get_volume_info collector_two_markets ''KRW-AAA'' 7))"
    by (rule two_markets_aaa_fails)
  then have l: "\<not> list_all step_passed
          (chain_verdicts criteria_growth20 (Some ta_example) collector_two_markets ''KRW-AAA'')"
    by (simp add: verdicts_all_pass all_enabled_pass_def)
  from evaluator_chain_short_circuits[of criteria_growth20 "Some ta_example"
      collector_two_markets "''KRW-AAA''"] v l two_markets_output
  show ?thesis by blast
qed

text \<open>
  The sort on three candidates with the scores 50, 70 and 50: the one with 70 comes first
  and the two with 50 keep their order.
\<close>

lemma sort_by_score_reverse_example:
  "map (\<lambda>c. (symbol c, score c))
     (sort_by_score_reverse
        [xrp_candidate\<lparr>symbol := ''A'', score := Fin 50\<rparr>,
         xrp_candidate\<lparr>symbol := ''B'', score := Fin 70\<rparr>,
         xrp_candidate\<lparr>symbol := ''C'', score := Fin 50\<rparr>])
     = [(''B'', Fin 70), (''A'', Fin 50), (''C'', Fin 50)]"
  by (simp add: sort_by_score_reverse_def)

text \<open>
  C7. The output of \<open>screen_all_markets\<close> is sorted by score in descending order, and the
  sort is stable: the candidates of any one score are in the order in which the loop over
  the market list produced them, which is the order of the markets.
\<close>

theorem output_sorted_stable:
  "sorted_wrt (\<lambda>a b. fle (score b) (score a)) (screen_all_markets crit ta coll)
   \<and> (\<forall>s. filter (\<lambda>c. score c = s) (screen_all_markets crit ta coll)
          = filter (\<lambda>c. score c = s)
              (collect_candidates crit ta coll (get_krw_markets_screener coll)))
   \<and> map symbol (collect_candidates crit ta coll (get_krw_markets_screener coll))
       = filter (\<lambda>m. screen_single_market crit ta coll m \<noteq> None) (get_krw_markets_screener coll)"
proof (intro conjI allI)
  have "\<forall>c \<in> set (collect_candidates crit ta coll (get_krw_markets_screener coll)). score c \<noteq> NaN"
    by (auto simp: set_collect_candidates dest: run_result_score)
  then show "sorted_wrt (\<lambda>a b. fle (score b) (score a)) (screen_all_markets crit ta coll)"
    by (simp add: screen_all_markets_def Let_def sorted_sort_by_score_reverse)
next
  fix s
  show "filter (\<lambda>c. score c = s) (screen_all_markets crit ta coll)
          = filter (\<lambda>c. score c = s)
              (collect_candidates crit ta coll (get_krw_markets_screener coll))"
    by (simp add: screen_all_markets_def Let_def filter_sort_by_score_reverse
        collect_candidates_def map_filter_def)
next
  show "map symbol (collect_candidates crit ta coll (get_krw_markets_screener coll))
       = filter (\<lambda>m. screen_single_market crit ta coll m \<noteq> None) (get_krw_markets_screener coll)"
    by (rule symbols_collect_candidates)
qed



section \<open>The moving-average evaluator\<close>

lemma ma_info_keys:
  "map_of (get_price_vs_moving_average candles period) ''above_ma'' = None"
  "map_of (get_price_vs_moving_average candles period) ''position_vs_ma_pct'' = None"
  "get_price_vs_moving_average candles period \<noteq> []"
  by (simp_all add: get_price_vs_moving_average_def ma_default_def Let_def)

lemma ma_evaluator_constant:
  "check_moving_average_criteria crit (Inr (get_price_vs_moving_average candles period))
     = (\<not> require_above_ma crit, Fin 0)"
  by (simp add: check_moving_average_criteria_def dict_get_def ma_info_keys)

lemma candles_above_ma_info:
  "get_price_vs_moving_average candles_above_ma 20 =
     [(''position'', PyNum (Fin (1900 / 101))), (''ma_value'', PyNum (Fin 101)),
      (''current_price'', PyNum (Fin 120))]"
  by (simp add: get_price_vs_moving_average_def candles_above_ma_def flat_candle_def Let_def
      eval_nat_numeral)

text \<open>
  C6. The collector reports the offset under the key \<open>position\<close> and reports no
  \<open>above_ma\<close>; the evaluator reads \<open>above_ma\<close> and \<open>position_vs_ma_pct\<close>. Whatever the
  candles, its verdict is the negation of \<open>require_above_ma\<close> and its value is 0.
  For twenty candles with the latest close 120 above the 20-day average 101 (an offset of
  1900/101 percent), the default criteria give fail with value 0.
\<close>

theorem moving_average_evaluator_ignores_position:
  "check_moving_average_criteria crit (Inr (get_price_vs_moving_average candles period))
     = (\<not> require_above_ma crit, Fin 0)
   \<and> get_price_vs_moving_average candles_above_ma (ma_period default_criteria) =
       [(''position'', PyNum (Fin (1900 / 101))), (''ma_value'', PyNum (Fin 101)),
        (''current_price'', PyNum (Fin 120))]
   \<and> check_moving_average_criteria default_criteria
         (Inr (get_price_vs_moving_average candles_above_ma (ma_period default_criteria)))
       = (False, Fin 0)"
proof (intro conjI)
  show "check_moving_average_criteria crit (Inr (get_price_vs_moving_average candles period))
     = (\<not> require_above_ma crit, Fin 0)"
    by (rule ma_evaluator_constant)
  show "get_price_vs_moving_average candles_above_ma (ma_period default_criteria) =
       [(''position'', PyNum (Fin (1900 / 101))), (''ma_value'', PyNum (Fin 101)),
        (''current_price'', PyNum (Fin 120))]"
    by (simp only: default_fields candles_above_ma_info)
  show "check_moving_average_criteria default_criteria
         (Inr (get_price_vs_moving_average candles_above_ma (ma_period default_criteria)))
       = (False, Fin 0)"
    by (simp only: ma_evaluator_constant default_fields simp_thms)
qed

section \<open>Evaluators without data\<close>







text \<open>
  The consecutive-decline evaluator on the collector's answer to a failed candle request:
  the answer is a non-empty dictionary without the key the evaluator reads.
\<close>

lemma decline_pass_without_data:
  "check_consecutive_decline_criteria default_criteria
     (Inr (check_consecutive_decline [] (max_consecutive_decline default_criteria)))
     = (True, Fin 0)"
  by (simp add: check_consecutive_decline_criteria_def check_consecutive_decline_def
      dict_get_def default_fields)

section \<open>The indicator engine\<close>







































end
